theory Spec2Isabelle
  imports Complex_Main
begin

section \<open>JavaScript numbers\<close>

text \<open>
  The model is written in TypeScript and computes on JavaScript numbers. A number is
  modelled as a real number or one of the three special values of IEEE arithmetic:
  \<open>NaN\<close>, \<open>+Infinity\<close> and \<open>-Infinity\<close>. Finite arithmetic is exact: rounding, overflow
  to infinity and the sign of zero are not modelled (a zero divisor counts as \<open>+0\<close>).
  The special values are modelled because the code produces them itself: the solver
  starts from \<open>bestGap = Infinity\<close>, divides by a computed target that can be zero, and
  reads optional fields that can be absent.

  The code's doubles round every sum, product, quotient and power. A statement that needs
  the exact result of one of them (a sum that is strictly larger than its first term, a
  product that scales exactly with one factor, a power that is monotone in its base) can
  hold of the exact operations here and fail of the code, so none is made below. The
  general statements about fee revenue, block rewards and a target out of reach are
  built on what rounding to the nearest double keeps: the order of numbers (a rounded
  operation that is monotone stays monotone, weakly), the special values, and which
  operation is applied to which operands. The values shown at example inputs are the
  exact ones.
\<close>

datatype number = Fin real | PInf | NInf | NaN

fun js_neg :: "number \<Rightarrow> number" where
  "js_neg (Fin a) = Fin (- a)"
| "js_neg PInf = NInf"
| "js_neg NInf = PInf"
| "js_neg NaN = NaN"

fun js_add :: "number \<Rightarrow> number \<Rightarrow> number" where
  "js_add (Fin a) (Fin b) = Fin (a + b)"
| "js_add (Fin a) PInf = PInf"
| "js_add (Fin a) NInf = NInf"
| "js_add PInf (Fin b) = PInf"
| "js_add PInf PInf = PInf"
| "js_add PInf NInf = NaN"
| "js_add NInf (Fin b) = NInf"
| "js_add NInf NInf = NInf"
| "js_add NInf PInf = NaN"
| "js_add NaN _ = NaN"
| "js_add _ NaN = NaN"

definition js_sub :: "number \<Rightarrow> number \<Rightarrow> number" where
  "js_sub a b = js_add a (js_neg b)"

text \<open>The infinity with the sign of a nonzero real; \<open>Infinity * 0\<close> is \<open>NaN\<close>.\<close>

definition inf_of_sign :: "real \<Rightarrow> number" where
  "inf_of_sign a = (if a = 0 then NaN else if 0 < a then PInf else NInf)"

fun js_mul :: "number \<Rightarrow> number \<Rightarrow> number" where
  "js_mul (Fin a) (Fin b) = Fin (a * b)"
| "js_mul (Fin a) PInf = inf_of_sign a"
| "js_mul (Fin a) NInf = inf_of_sign (- a)"
| "js_mul PInf (Fin b) = inf_of_sign b"
| "js_mul NInf (Fin b) = inf_of_sign (- b)"
| "js_mul PInf PInf = PInf"
| "js_mul PInf NInf = NInf"
| "js_mul NInf PInf = NInf"
| "js_mul NInf NInf = PInf"
| "js_mul NaN _ = NaN"
| "js_mul _ NaN = NaN"

text \<open>
  Division: a nonzero finite number over zero is an infinity with the sign of the
  numerator, \<open>0 / 0\<close> and \<open>Infinity / Infinity\<close> are \<open>NaN\<close>, a finite number over an
  infinity is zero.
\<close>

fun js_div :: "number \<Rightarrow> number \<Rightarrow> number" where
  "js_div (Fin a) (Fin b) = (if b = 0 then inf_of_sign a else Fin (a / b))"
| "js_div (Fin a) PInf = Fin 0"
| "js_div (Fin a) NInf = Fin 0"
| "js_div PInf (Fin b) = (if 0 \<le> b then PInf else NInf)"
| "js_div NInf (Fin b) = (if 0 \<le> b then NInf else PInf)"
| "js_div PInf PInf = NaN"
| "js_div PInf NInf = NaN"
| "js_div NInf PInf = NaN"
| "js_div NInf NInf = NaN"
| "js_div NaN _ = NaN"
| "js_div _ NaN = NaN"

text \<open>Comparisons: every comparison with \<open>NaN\<close> is false.\<close>

fun js_lt :: "number \<Rightarrow> number \<Rightarrow> bool" where
  "js_lt (Fin a) (Fin b) = (a < b)"
| "js_lt (Fin a) PInf = True"
| "js_lt NInf (Fin b) = True"
| "js_lt NInf PInf = True"
| "js_lt _ _ = False"

fun js_le :: "number \<Rightarrow> number \<Rightarrow> bool" where
  "js_le (Fin a) (Fin b) = (a \<le> b)"
| "js_le (Fin a) PInf = True"
| "js_le NInf (Fin b) = True"
| "js_le NInf PInf = True"
| "js_le PInf PInf = True"
| "js_le NInf NInf = True"
| "js_le _ _ = False"

definition js_gt :: "number \<Rightarrow> number \<Rightarrow> bool" where
  "js_gt a b = js_lt b a"

definition js_ge :: "number \<Rightarrow> number \<Rightarrow> bool" where
  "js_ge a b = js_le b a"

fun Math_abs :: "number \<Rightarrow> number" where
  "Math_abs (Fin a) = Fin \<bar>a\<bar>"
| "Math_abs PInf = PInf"
| "Math_abs NInf = PInf"
| "Math_abs NaN = NaN"

text \<open>\<open>Math.min\<close> and \<open>Math.max\<close> return \<open>NaN\<close> as soon as one argument is \<open>NaN\<close>.\<close>

definition Math_min :: "number \<Rightarrow> number \<Rightarrow> number" where
  "Math_min a b = (if a = NaN \<or> b = NaN then NaN else if js_le a b then a else b)"

definition Math_max :: "number \<Rightarrow> number \<Rightarrow> number" where
  "Math_max a b = (if a = NaN \<or> b = NaN then NaN else if js_le a b then b else a)"

text \<open>
  \<open>Math.pow(base, exponent)\<close> for a finite exponent (the exponent is always the
  \<open>elasticity\<close> field): exponent zero gives 1 for every base, also \<open>NaN\<close>; a negative
  base with a fractional exponent gives \<open>NaN\<close>; a zero base with a negative exponent
  gives \<open>Infinity\<close>.
\<close>

definition odd_integer :: "real \<Rightarrow> bool" where
  "odd_integer e = (e \<in> \<int> \<and> odd \<lfloor>e\<rfloor>)"

fun Math_pow :: "number \<Rightarrow> real \<Rightarrow> number" where
  "Math_pow (Fin x) e =
     (if e = 0 then Fin 1
      else if 0 < x then Fin (x powr e)
      else if x = 0 then (if 0 < e then Fin 0 else PInf)
      else if e \<in> \<int> then Fin (x powi \<lfloor>e\<rfloor>)
      else NaN)"
| "Math_pow PInf e = (if e = 0 then Fin 1 else if 0 < e then PInf else Fin 0)"
| "Math_pow NInf e =
     (if e = 0 then Fin 1
      else if 0 < e then (if odd_integer e then NInf else PInf)
      else Fin 0)"
| "Math_pow NaN e = (if e = 0 then Fin 1 else NaN)"

text \<open>
  The value of an optional field: absent (\<open>undefined\<close>), \<open>null\<close>, or a number.
  Arithmetic converts it to a number first (\<open>undefined\<close> to \<open>NaN\<close>, \<open>null\<close> to 0);
  a condition tests whether it is truthy (neither absent, \<open>null\<close>, 0 nor \<open>NaN\<close>).
\<close>

datatype jsval = Undefined | Null | Num number

fun toNumber :: "jsval \<Rightarrow> number" where
  "toNumber Undefined = NaN"
| "toNumber Null = Fin 0"
| "toNumber (Num x) = x"

fun truthy :: "jsval \<Rightarrow> bool" where
  "truthy Undefined = False"
| "truthy Null = False"
| "truthy (Num (Fin a)) = (a \<noteq> 0)"
| "truthy (Num NaN) = False"
| "truthy (Num _) = True"

section \<open>Inputs and outputs of the economic model\<close>

text \<open>
  The required fields of \<open>EconomicInputs\<close> hold finite numbers (they come from sliders,
  presets and price data); the optional fields may be absent. \<open>securityBudgetMode\<close> is
  a string at run time, whatever the declared union of three literals says.
\<close>

record EconomicInputs =
  btcPrice :: real
  blockLimitMB :: real
  baselineFeerate :: real
  baselineDemandVbDay :: real
  elasticity :: real
  mevUplift :: real
  costPerTHDay :: real
  margin :: real
  poolShare :: real
  avgTxVb :: real
  backlogVb :: real
  securityBudgetMode :: string
  alpha :: jsval
  base2025RevenueUsd :: jsval
  beta :: jsval
  settlementUsdDay :: jsval
  absoluteUsdDay :: jsval
  batchingFactor :: jsval
  valuePerTxMultiplier :: jsval
  rentRateUsdPerTHHour :: jsval

datatype error = Error string

abbreviation BLOCKS_PER_DAY :: number where
  "BLOCKS_PER_DAY \<equiv> Fin 144"

abbreviation SATOSHIS_PER_BTC :: number where
  "SATOSHIS_PER_BTC \<equiv> Fin 100000000"

definition usd :: "number \<Rightarrow> number \<Rightarrow> number" where
  "usd btcAmount price = js_mul btcAmount price"

section \<open>Demand, supply and fee revenue\<close>

definition blockLimitVb :: "number \<Rightarrow> number" where
  "blockLimitVb mb = js_mul mb (Fin 1000000)"

text \<open>The destructuring default \<open>batchingFactor = 1\<close> applies to an absent field only.\<close>

definition batchingFactor_or_default :: "EconomicInputs \<Rightarrow> number" where
  "batchingFactor_or_default inputs =
     (case batchingFactor inputs of Undefined \<Rightarrow> Fin 1 | v \<Rightarrow> toNumber v)"

definition demandVbPerDay :: "number \<Rightarrow> EconomicInputs \<Rightarrow> number" where
  "demandVbPerDay feerate inputs =
     (let ratio = js_div feerate (Fin (baselineFeerate inputs))
      in js_mul (js_div (Fin (baselineDemandVbDay inputs)) (batchingFactor_or_default inputs))
                (Math_pow ratio (elasticity inputs)))"

definition confirmedVbPerDay :: "number \<Rightarrow> EconomicInputs \<Rightarrow> number" where
  "confirmedVbPerDay feerate inputs =
     (let demand = demandVbPerDay feerate inputs;
          supply = js_mul (blockLimitVb (Fin (blockLimitMB inputs))) BLOCKS_PER_DAY
      in Math_min demand supply)"

definition feesUsdPerDay :: "number \<Rightarrow> EconomicInputs \<Rightarrow> number" where
  "feesUsdPerDay feerate inputs =
     (let vbConfirmed = confirmedVbPerDay feerate inputs;
          feesBtc = js_div (js_mul feerate vbConfirmed) SATOSHIS_PER_BTC
      in usd feesBtc (Fin (btcPrice inputs)))"

section \<open>Security budget\<close>

text \<open>
  The non-null assertions (\<open>inputs.alpha!\<close>) exist at compile time only: at run time an
  absent field is read as \<open>undefined\<close> and a product with it is \<open>NaN\<close>. The
  \<open>absolute_usd\<close> branch returns the field as it is.
\<close>

definition securityBudgetTargetUsd :: "EconomicInputs \<Rightarrow> error + jsval" where
  "securityBudgetTargetUsd inputs =
     (if securityBudgetMode inputs = ''absolute_usd'' then
        Inr (absoluteUsdDay inputs)
      else if securityBudgetMode inputs = ''percent_of_2025'' then
        Inr (Num (js_mul (toNumber (alpha inputs)) (toNumber (base2025RevenueUsd inputs))))
      else if securityBudgetMode inputs = ''percent_of_settlement_value'' then
        Inr (Num (js_mul (toNumber (beta inputs)) (toNumber (settlementUsdDay inputs))))
      else Inl (Error ''Invalid security budget mode''))"

section \<open>Attack cost and confirmation time\<close>

definition attackCostUsd :: "number \<Rightarrow> number \<Rightarrow> number \<Rightarrow> number" where
  "attackCostUsd hours hashrateTH rentRate =
     (let attackerTH = js_mul (Fin 0.51) hashrateTH
      in js_mul (js_mul attackerTH rentRate) hours)"

definition calculateConfirmationTime :: "number \<Rightarrow> EconomicInputs \<Rightarrow> number" where
  "calculateConfirmationTime feerate inputs =
     (let demand = demandVbPerDay feerate inputs;
          supply = js_mul (blockLimitVb (Fin (blockLimitMB inputs))) BLOCKS_PER_DAY
      in if js_le demand supply then Fin 10
         else (let backlog = js_add (Fin (backlogVb inputs)) (js_sub demand supply)
               in Math_max (Fin 10) (js_mul (js_mul (js_div backlog supply) (Fin 10)) (Fin 60))))"

section \<open>The equilibrium solver\<close>

record SearchState =
  lo :: number
  hi :: number
  bestFeerate :: number
  bestGap :: number
  bestFeesUsd :: number
  bestDemand :: number

record SolverResult =
  feerate :: number
  targetMet :: bool
  gap :: number
  actualRevenue :: number
  confirmedDemandMBDay :: number
  targetFeesUsd :: number

text \<open>The midpoint the next iteration evaluates, and the relative gap of a fee revenue.\<close>

definition midpoint :: "SearchState \<Rightarrow> number" where
  "midpoint s = js_div (js_add (lo s) (hi s)) (Fin 2)"

definition relative_gap :: "number \<Rightarrow> number \<Rightarrow> number" where
  "relative_gap feesUsd target = js_div (Math_abs (js_sub feesUsd target)) target"

text \<open>One pass through the loop body, up to the test that leaves the loop.\<close>

definition search_step :: "EconomicInputs \<Rightarrow> number \<Rightarrow> SearchState \<Rightarrow> SearchState" where
  "search_step inputs target s =
     (let mid = midpoint s;
          confirmedVbDay = confirmedVbPerDay mid inputs;
          feesUsd = js_mul (js_div (js_mul mid confirmedVbDay) SATOSHIS_PER_BTC)
                           (Fin (btcPrice inputs));
          g = relative_gap feesUsd target;
          s1 = (if js_lt g (bestGap s)
                then s\<lparr>bestFeerate := mid, bestGap := g, bestFeesUsd := feesUsd,
                       bestDemand := js_div confirmedVbDay (Fin 1000000)\<rparr>
                else s)
      in if js_ge feesUsd target then s1\<lparr>hi := mid\<rparr> else s1\<lparr>lo := mid\<rparr>)"

text \<open>
  The loop \<open>for (let i = 0; i < 100; i++)\<close>, by recursion on the number of iterations
  still allowed (\<open>100 - i\<close>); it stops early once the bracket is narrower than 0.001.
\<close>

fun search_loop :: "nat \<Rightarrow> EconomicInputs \<Rightarrow> number \<Rightarrow> SearchState \<Rightarrow> SearchState" where
  "search_loop 0 inputs target s = s"
| "search_loop (Suc n) inputs target s =
     (let s' = search_step inputs target s
      in if js_lt (js_sub (hi s') (lo s')) (Fin 0.001) then s'
         else search_loop n inputs target s')"

definition initial_state :: SearchState where
  "initial_state =
     \<lparr>lo = Fin 1, hi = Fin 100000, bestFeerate = Fin 100000, bestGap = PInf,
      bestFeesUsd = Fin 0, bestDemand = Fin 0\<rparr>"

definition tolerance :: number where
  "tolerance = Fin 0.0025"

definition solveFeerateForTarget :: "EconomicInputs \<Rightarrow> error + SolverResult" where
  "solveFeerateForTarget inputs =
     (case securityBudgetTargetUsd inputs of
        Inl e \<Rightarrow> Inl e
      | Inr securityBudgetTarget \<Rightarrow>
          (let gamma = Fin (mevUplift inputs);
               target = js_div (toNumber securityBudgetTarget) (js_add (Fin 1) gamma);
               s = search_loop 100 inputs target initial_state;
               finalGap = js_div (js_sub (bestFeesUsd s) target) target;
               revenue = js_mul (bestFeesUsd s) (js_add (Fin 1) gamma)
           in Inr \<lparr>feerate = bestFeerate s,
                   targetMet = js_le (Math_abs finalGap) tolerance,
                   gap = finalGap,
                   actualRevenue = revenue,
                   confirmedDemandMBDay = bestDemand s,
                   targetFeesUsd = target\<rparr>))"

section \<open>The full model\<close>

record SolverInfo =
  info_targetMet :: bool
  info_gap :: number
  info_actualRevenue :: number
  info_targetFeesUsd :: number

record EconomicOutputs =
  optimalFeerate :: number
  dailyFeeRevenueBTC :: number
  dailyFeeRevenueUSD :: number
  feesPerBlockBTC :: number
  avgFeePerTxUSD :: number
  out_demandVbPerDay :: number
  out_confirmedVbPerDay :: number
  out_backlogVb :: number
  avgConfirmationTimeMin :: number
  equilibriumHashrateTH :: number
  networkRevenueUSD :: number
  securityBudgetTargetUSD :: jsval
  attackCost6hUSD :: number
  attackCostAsPercentOfSettlement :: number
  poolDailyRevenueUSD :: number
  poolDailyExpensesUSD :: number
  poolDailyProfitUSD :: number
  poolProfitMargin :: number
  breakEvenBTCPrice :: number
  hashrateSustainabilityRatio :: number
  solverInfo :: SolverInfo
  currentHashrateTH :: number

text \<open>
  \<open>computeFullModel\<close>. The calls of \<open>assertNearlyEqual\<close> only write a warning to the
  console and change no value, so they have no counterpart here. The second call of
  \<open>securityBudgetTargetUsd\<close> cannot raise where the first one (inside the solver) did
  not.
\<close>

definition computeFullModel :: "EconomicInputs \<Rightarrow> bool \<Rightarrow> error + EconomicOutputs" where
  "computeFullModel inputs includeBlockRewards =
     (let currentBlockReward = (if includeBlockRewards then Fin 3.125 else Fin 0);
          rewardUsdDay = usd (js_mul currentBlockReward BLOCKS_PER_DAY) (Fin (btcPrice inputs))
      in case solveFeerateForTarget inputs of
           Inl e \<Rightarrow> Inl e
         | Inr solverResult \<Rightarrow>
      (let optFeerate = feerate solverResult;
           confirmedVb = confirmedVbPerDay optFeerate inputs;
           feeUSD = js_mul (js_div (js_mul optFeerate confirmedVb) SATOSHIS_PER_BTC)
                           (Fin (btcPrice inputs));
           feeBTC = js_div feeUSD (Fin (btcPrice inputs));
           feesPerBlockUSD = js_div feeUSD BLOCKS_PER_DAY;
           perBlockBTC = js_div feesPerBlockUSD (Fin (btcPrice inputs));
           perTxUSD = js_mul (js_div (js_mul optFeerate (Fin (avgTxVb inputs))) SATOSHIS_PER_BTC)
                             (Fin (btcPrice inputs));
           demandVb = demandVbPerDay optFeerate inputs;
           backlog = Math_max (Fin 0)
                       (js_sub (js_add (Fin (backlogVb inputs)) demandVb) confirmedVb);
           confirmationTime = calculateConfirmationTime optFeerate inputs;
           feeRevenueWithMEV = js_mul feeUSD (js_add (Fin 1) (Fin (mevUplift inputs)));
           networkRevenue = js_add feeRevenueWithMEV rewardUsdDay
       in case securityBudgetTargetUsd inputs of
            Inl e \<Rightarrow> Inl e
          | Inr budgetTarget \<Rightarrow>
      (let hashrate = js_div networkRevenue
                        (js_mul (Fin (costPerTHDay inputs))
                                (js_add (Fin 1) (Fin (margin inputs))));
           rentRate = (if truthy (rentRateUsdPerTHHour inputs)
                       then toNumber (rentRateUsdPerTHHour inputs) else Fin 0.06);
           attackCost = attackCostUsd (Fin 6) hashrate rentRate;
           attackPercent = (if truthy (settlementUsdDay inputs)
                            then js_mul (js_div attackCost (toNumber (settlementUsdDay inputs)))
                                        (Fin 100)
                            else Fin 0);
           poolRevenue = js_mul networkRevenue (Fin (poolShare inputs));
           poolExpenses = js_mul (js_mul hashrate (Fin (poolShare inputs)))
                                 (Fin (costPerTHDay inputs));
           poolProfit = js_sub poolRevenue poolExpenses;
           poolMargin = (if js_gt poolRevenue (Fin 0) then js_div poolProfit poolRevenue
                         else Fin (- 1));
           breakEven = (if js_gt poolExpenses (Fin 0) \<and> js_gt feeBTC (Fin 0)
                        then js_div poolExpenses (js_mul feeBTC (Fin (poolShare inputs)))
                        else PInf);
           currentTH = js_mul (Fin 400) (Fin 1000000000000);
           sustainability = js_div hashrate currentTH
       in Inr \<lparr>optimalFeerate = optFeerate,
               dailyFeeRevenueBTC = feeBTC,
               dailyFeeRevenueUSD = feeUSD,
               feesPerBlockBTC = perBlockBTC,
               avgFeePerTxUSD = perTxUSD,
               out_demandVbPerDay = demandVb,
               out_confirmedVbPerDay = confirmedVb,
               out_backlogVb = backlog,
               avgConfirmationTimeMin = confirmationTime,
               equilibriumHashrateTH = hashrate,
               networkRevenueUSD = networkRevenue,
               securityBudgetTargetUSD = budgetTarget,
               attackCost6hUSD = attackCost,
               attackCostAsPercentOfSettlement = attackPercent,
               poolDailyRevenueUSD = poolRevenue,
               poolDailyExpensesUSD = poolExpenses,
               poolDailyProfitUSD = poolProfit,
               poolProfitMargin = poolMargin,
               breakEvenBTCPrice = breakEven,
               hashrateSustainabilityRatio = sustainability,
               solverInfo = \<lparr>info_targetMet = targetMet solverResult,
                              info_gap = gap solverResult,
                              info_actualRevenue = actualRevenue solverResult,
                              info_targetFeesUsd = targetFeesUsd solverResult\<rparr>,
               currentHashrateTH = currentTH\<rparr>)))"

text \<open>The record \<open>getDefaultInputs\<close> returns.\<close>

definition getDefaultInputs :: EconomicInputs where
  "getDefaultInputs =
     \<lparr>btcPrice = 100000, blockLimitMB = 4, baselineFeerate = 12,
      baselineDemandVbDay = 280000000, elasticity = - 0.5, mevUplift = 0.03,
      costPerTHDay = 1.5, margin = 0.107, poolShare = 0.008, avgTxVb = 210,
      backlogVb = 25000000, securityBudgetMode = ''percent_of_2025'',
      alpha = Num (Fin 0.65), base2025RevenueUsd = Num (Fin (100000 * 3.125 * 144)),
      beta = Num (Fin 0.003), settlementUsdDay = Num (Fin 8000000000),
      absoluteUsdDay = Num (Fin 25000000), batchingFactor = Num (Fin 1.15),
      valuePerTxMultiplier = Num (Fin 1.3), rentRateUsdPerTHHour = Num (Fin 0.06)\<rparr>"

section \<open>Auxiliary definitions for the proofs\<close>

text \<open>
  Two input records agree on every field the solver, the demand curve and the budget
  resolver read.
\<close>

definition same_solver_fields :: "EconomicInputs \<Rightarrow> EconomicInputs \<Rightarrow> bool" where
  "same_solver_fields i j \<longleftrightarrow>
     btcPrice i = btcPrice j \<and> blockLimitMB i = blockLimitMB j \<and>
     baselineFeerate i = baselineFeerate j \<and> baselineDemandVbDay i = baselineDemandVbDay j \<and>
     elasticity i = elasticity j \<and> mevUplift i = mevUplift j \<and>
     securityBudgetMode i = securityBudgetMode j \<and> alpha i = alpha j \<and>
     base2025RevenueUsd i = base2025RevenueUsd j \<and> beta i = beta j \<and>
     settlementUsdDay i = settlementUsdDay j \<and> absoluteUsdDay i = absoluteUsdDay j \<and>
     batchingFactor i = batchingFactor j"

text \<open>The block-reward term of \<open>computeFullModel\<close>: 3.125 BTC per block, or none.\<close>

definition rewardUsdDay :: "EconomicInputs \<Rightarrow> bool \<Rightarrow> number" where
  "rewardUsdDay i b = usd (js_mul (if b then Fin 3.125 else Fin 0) BLOCKS_PER_DAY) (Fin (btcPrice i))"

text \<open>The three values of \<open>securityBudgetMode\<close> that the \<open>switch\<close> recognises.\<close>

definition recognised_mode :: "string \<Rightarrow> bool" where
  "recognised_mode m \<longleftrightarrow>
     m = ''absolute_usd'' \<or> m = ''percent_of_2025'' \<or> m = ''percent_of_settlement_value''"

text \<open>Example inputs: the default record with a field its mode requires left out.\<close>

definition absent_alpha :: EconomicInputs where
  "absent_alpha = getDefaultInputs\<lparr>alpha := Undefined\<rparr>"

definition absent_absolute :: EconomicInputs where
  "absent_absolute =
     getDefaultInputs\<lparr>securityBudgetMode := ''absolute_usd'', absoluteUsdDay := Undefined\<rparr>"

text \<open>
  The midpoints that \<open>search_loop\<close> evaluates, in order: a ghost copy of the loop that
  records \<open>mid\<close> at each iteration.
\<close>

fun candidates :: "nat \<Rightarrow> EconomicInputs \<Rightarrow> number \<Rightarrow> SearchState \<Rightarrow> number list" where
  "candidates 0 inputs target s = []"
| "candidates (Suc n) inputs target s =
     (let s' = search_step inputs target s
      in midpoint s #
         (if js_lt (js_sub (hi s') (lo s')) (Fin 0.001) then []
          else candidates n inputs target s'))"

text \<open>
  Two states carry the same best candidate; and the best candidate of a state is the
  midpoint \<open>m\<close>, with the fee revenue, gap and demand the loop body computes for it.
\<close>

definition same_best :: "SearchState \<Rightarrow> SearchState \<Rightarrow> bool" where
  "same_best s s' \<longleftrightarrow>
     bestFeerate s' = bestFeerate s \<and> bestGap s' = bestGap s \<and>
     bestFeesUsd s' = bestFeesUsd s \<and> bestDemand s' = bestDemand s"

definition best_of :: "EconomicInputs \<Rightarrow> number \<Rightarrow> SearchState \<Rightarrow> number \<Rightarrow> bool" where
  "best_of inputs target s m \<longleftrightarrow>
     bestFeerate s = m \<and> bestFeesUsd s = feesUsdPerDay m inputs \<and>
     bestGap s = relative_gap (feesUsdPerDay m inputs) target \<and>
     bestDemand s = js_div (confirmedVbPerDay m inputs) (Fin 1000000)"

text \<open>
  More example inputs: a budget of 28 million USD per day that a feerate of 100 sat/vB
  meets exactly (zero elasticity, no MEV uplift), the default record with a zero
  absolute budget, and a negative budget.
\<close>

definition exact_target :: EconomicInputs where
  "exact_target =
     getDefaultInputs\<lparr>elasticity := 0, mevUplift := 0, securityBudgetMode := ''absolute_usd'',
       absoluteUsdDay := Num (Fin 28000000), batchingFactor := Undefined\<rparr>"

definition zero_budget :: EconomicInputs where
  "zero_budget =
     getDefaultInputs\<lparr>securityBudgetMode := ''absolute_usd'', absoluteUsdDay := Num (Fin 0)\<rparr>"

definition negative_budget :: EconomicInputs where
  "negative_budget = exact_target\<lparr>absoluteUsdDay := Num (Fin (- 28000000))\<rparr>"

text \<open>
  The documented range of \<open>batchingFactor\<close> (at least 1, or absent), the divisor it
  stands for, and the fee revenue of a positive feerate as a real number, for inputs
  with a positive baseline feerate.
\<close>

definition batching_at_least_one :: "EconomicInputs \<Rightarrow> bool" where
  "batching_at_least_one i \<longleftrightarrow>
     batchingFactor i = Undefined \<or> (\<exists>b. batchingFactor i = Num (Fin b) \<and> 1 \<le> b)"

definition batching_divisor :: "EconomicInputs \<Rightarrow> real" where
  "batching_divisor i = (case batchingFactor i of Num (Fin b) \<Rightarrow> b | _ \<Rightarrow> 1)"

definition fees_real :: "real \<Rightarrow> EconomicInputs \<Rightarrow> real" where
  "fees_real f i =
     f * min (baselineDemandVbDay i / batching_divisor i * (f / baselineFeerate i) powr elasticity i)
             (blockLimitMB i * 1000000 * 144)
       / 100000000 * btcPrice i"




text \<open>
  Two budgets out of reach with the demand of \<open>exact_target\<close>, whose fee revenue is
  280000 USD per day for each sat/vB and so at most 28 billion: one 0.1 percent above
  that maximum, and one of a trillion USD per day.
\<close>

definition near_ceiling_target :: EconomicInputs where
  "near_ceiling_target = exact_target\<lparr>absoluteUsdDay := Num (Fin 28028000000)\<rparr>"




section \<open>Fields the solver does not read\<close>

lemma same_demandVbPerDay:
  "same_solver_fields i j \<Longrightarrow> demandVbPerDay f i = demandVbPerDay f j"
  by (simp add: same_solver_fields_def demandVbPerDay_def batchingFactor_or_default_def)

lemma same_confirmedVbPerDay:
  "same_solver_fields i j \<Longrightarrow> confirmedVbPerDay f i = confirmedVbPerDay f j"
  by (simp add: confirmedVbPerDay_def same_demandVbPerDay [of i j])
     (simp add: same_solver_fields_def)

lemma same_search_step:
  "same_solver_fields i j \<Longrightarrow> search_step i t s = search_step j t s"
  by (simp add: search_step_def same_confirmedVbPerDay [of i j])
     (simp add: same_solver_fields_def)

lemma same_search_loop:
  "same_solver_fields i j \<Longrightarrow> search_loop n i t s = search_loop n j t s"
  by (induction n arbitrary: s) (simp_all add: same_search_step [of i j] Let_def)

lemma same_securityBudgetTargetUsd:
  "same_solver_fields i j \<Longrightarrow> securityBudgetTargetUsd i = securityBudgetTargetUsd j"
  by (simp add: same_solver_fields_def securityBudgetTargetUsd_def)

lemma same_mevUplift: "same_solver_fields i j \<Longrightarrow> mevUplift i = mevUplift j"
  by (simp add: same_solver_fields_def)

lemma same_solveFeerateForTarget:
  "same_solver_fields i j \<Longrightarrow> solveFeerateForTarget i = solveFeerateForTarget j"
  by (cases "securityBudgetTargetUsd j")
     (simp_all add: solveFeerateForTarget_def same_securityBudgetTargetUsd [of i j]
        same_search_loop [of i j] same_mevUplift)

lemma same_calculateConfirmationTime:
  "same_solver_fields i j \<Longrightarrow> backlogVb i = backlogVb j \<Longrightarrow>
   calculateConfirmationTime f i = calculateConfirmationTime f j"
  by (simp add: calculateConfirmationTime_def same_demandVbPerDay [of i j])
     (simp add: same_solver_fields_def Let_def)

lemma same_valuePerTxMultiplier: "same_solver_fields (i\<lparr>valuePerTxMultiplier := v\<rparr>) i"
  by (simp add: same_solver_fields_def)

section \<open>Shape of the result of the full model\<close>




section \<open>The security-budget resolver\<close>

text \<open>
  C6. \<open>securityBudgetTargetUsd\<close> returns \<open>alpha * base2025RevenueUsd\<close> in mode
  \<open>percent_of_2025\<close>, \<open>beta * settlementUsdDay\<close> in mode \<open>percent_of_settlement_value\<close>,
  \<open>absoluteUsdDay\<close> in mode \<open>absolute_usd\<close>, and raises the error
  "Invalid security budget mode" for every other mode: it never falls back to one of
  the three policies. The products are JavaScript products of the two fields.
\<close>

theorem securityBudgetTargetUsd_by_mode:
  "(securityBudgetMode i = ''percent_of_2025'' \<longrightarrow>
      securityBudgetTargetUsd i =
        Inr (Num (js_mul (toNumber (alpha i)) (toNumber (base2025RevenueUsd i))))) \<and>
   (securityBudgetMode i = ''percent_of_settlement_value'' \<longrightarrow>
      securityBudgetTargetUsd i =
        Inr (Num (js_mul (toNumber (beta i)) (toNumber (settlementUsdDay i))))) \<and>
   (securityBudgetMode i = ''absolute_usd'' \<longrightarrow>
      securityBudgetTargetUsd i = Inr (absoluteUsdDay i)) \<and>
   (\<not> recognised_mode (securityBudgetMode i) \<longrightarrow>
      securityBudgetTargetUsd i = Inl (Error ''Invalid security budget mode''))"
  by (simp add: securityBudgetTargetUsd_def recognised_mode_def)

theorem securityBudgetTargetUsd_by_mode_witness:
  "securityBudgetTargetUsd getDefaultInputs = Inr (Num (Fin 29250000)) \<and>
   securityBudgetTargetUsd (getDefaultInputs\<lparr>securityBudgetMode := ''percent_of_settlement_value''\<rparr>)
     = Inr (Num (Fin 24000000)) \<and>
   securityBudgetTargetUsd (getDefaultInputs\<lparr>securityBudgetMode := ''absolute_usd''\<rparr>)
     = Inr (Num (Fin 25000000)) \<and>
   securityBudgetTargetUsd (getDefaultInputs\<lparr>securityBudgetMode := ''percent_of_2026''\<rparr>)
     = Inl (Error ''Invalid security budget mode'')"
  using securityBudgetTargetUsd_by_mode [of getDefaultInputs]
    securityBudgetTargetUsd_by_mode
      [of "getDefaultInputs\<lparr>securityBudgetMode := ''percent_of_settlement_value''\<rparr>"]
    securityBudgetTargetUsd_by_mode
      [of "getDefaultInputs\<lparr>securityBudgetMode := ''absolute_usd''\<rparr>"]
    securityBudgetTargetUsd_by_mode
      [of "getDefaultInputs\<lparr>securityBudgetMode := ''percent_of_2026''\<rparr>"]
  by (simp add: getDefaultInputs_def recognised_mode_def)

text \<open>
  C4, as the specification states it, asks for a configuration error when a field that
  the mode requires is absent. The code has no such check: the \<open>switch\<close> only rejects
  an unknown mode. With \<open>alpha\<close> absent in mode \<open>percent_of_2025\<close> the call returns
  \<open>NaN\<close> and raises nothing.
\<close>

theorem missing_field_counterexample:
  "securityBudgetTargetUsd absent_alpha = Inr (Num NaN)"
  by (simp add: securityBudgetTargetUsd_def absent_alpha_def getDefaultInputs_def)

text \<open>
  C4, amended. For a recognised mode \<open>securityBudgetTargetUsd\<close> never raises, whatever
  fields are absent: in the two percentage modes an absent factor makes the product
  \<open>NaN\<close> (a \<open>null\<close> factor counts as 0), and in mode \<open>absolute_usd\<close> an absent or
  \<open>null\<close> \<open>absoluteUsdDay\<close> is returned as it is. The only configuration error is the
  one for an unrecognised mode.
\<close>

theorem missing_field_does_not_raise:
  "(recognised_mode (securityBudgetMode i) \<longrightarrow> (\<exists>v. securityBudgetTargetUsd i = Inr v)) \<and>
   (securityBudgetMode i = ''percent_of_2025'' \<and>
      (alpha i = Undefined \<or> base2025RevenueUsd i = Undefined) \<longrightarrow>
      securityBudgetTargetUsd i = Inr (Num NaN)) \<and>
   (securityBudgetMode i = ''percent_of_settlement_value'' \<and>
      (beta i = Undefined \<or> settlementUsdDay i = Undefined) \<longrightarrow>
      securityBudgetTargetUsd i = Inr (Num NaN)) \<and>
   (securityBudgetMode i = ''percent_of_2025'' \<and>
      alpha i = Null \<and> base2025RevenueUsd i = Num (Fin b) \<longrightarrow>
      securityBudgetTargetUsd i = Inr (Num (Fin 0))) \<and>
   (securityBudgetMode i = ''absolute_usd'' \<and> absoluteUsdDay i \<in> {Undefined, Null} \<longrightarrow>
      securityBudgetTargetUsd i = Inr (absoluteUsdDay i))"
  by (cases "toNumber (alpha i)"; cases "toNumber (beta i)")
     (auto simp add: securityBudgetTargetUsd_def recognised_mode_def)

theorem missing_field_does_not_raise_witness:
  "securityBudgetTargetUsd absent_alpha = Inr (Num NaN) \<and>
   securityBudgetTargetUsd absent_absolute = Inr Undefined \<and>
   securityBudgetTargetUsd (getDefaultInputs\<lparr>securityBudgetMode := ''percent_of_settlement_value'',
       settlementUsdDay := Undefined\<rparr>) = Inr (Num NaN) \<and>
   securityBudgetTargetUsd (getDefaultInputs\<lparr>alpha := Null\<rparr>) = Inr (Num (Fin 0))"
  using missing_field_does_not_raise [of absent_alpha]
    missing_field_does_not_raise [of absent_absolute]
    missing_field_does_not_raise
      [of "getDefaultInputs\<lparr>securityBudgetMode := ''percent_of_settlement_value'',
             settlementUsdDay := Undefined\<rparr>"]
    missing_field_does_not_raise [of "getDefaultInputs\<lparr>alpha := Null\<rparr>" 45000000]
  by (simp add: absent_alpha_def absent_absolute_def getDefaultInputs_def recognised_mode_def)

section \<open>Confirmation time\<close>

text \<open>
  C9. With \<open>supply = blockLimitMB * 1000000 * 144\<close>, \<open>calculateConfirmationTime\<close>
  returns 10 minutes when \<open>demandVbPerDay(feerate, inputs) <= supply\<close>, and otherwise
  \<open>max(10, ((backlogVb + (demand - supply)) / supply) * 10 * 60)\<close>.
\<close>

theorem calculateConfirmationTime_cases:
  "(js_le (demandVbPerDay f i) (js_mul (js_mul (Fin (blockLimitMB i)) (Fin 1000000)) (Fin 144)) \<longrightarrow>
      calculateConfirmationTime f i = Fin 10) \<and>
   (\<not> js_le (demandVbPerDay f i) (js_mul (js_mul (Fin (blockLimitMB i)) (Fin 1000000)) (Fin 144)) \<longrightarrow>
      calculateConfirmationTime f i =
        Math_max (Fin 10)
          (js_mul (js_mul
             (js_div (js_add (Fin (backlogVb i))
                        (js_sub (demandVbPerDay f i)
                           (js_mul (js_mul (Fin (blockLimitMB i)) (Fin 1000000)) (Fin 144))))
                (js_mul (js_mul (Fin (blockLimitMB i)) (Fin 1000000)) (Fin 144)))
             (Fin 10)) (Fin 60)))"
  by (simp add: calculateConfirmationTime_def blockLimitVb_def Let_def)

theorem calculateConfirmationTime_cases_witness:
  "calculateConfirmationTime (Fin 50) (getDefaultInputs\<lparr>elasticity := 0\<rparr>) = Fin 10 \<and>
   calculateConfirmationTime (Fin 50) (getDefaultInputs\<lparr>elasticity := 0, blockLimitMB := 1\<rparr>)
     = Fin (71575 / 138)"
  using calculateConfirmationTime_cases [of "Fin 50" "getDefaultInputs\<lparr>elasticity := 0\<rparr>"]
    calculateConfirmationTime_cases
      [of "Fin 50" "getDefaultInputs\<lparr>elasticity := 0, blockLimitMB := 1\<rparr>"]
  by (simp add: demandVbPerDay_def batchingFactor_or_default_def getDefaultInputs_def
        Math_max_def js_sub_def)

section \<open>The informational multiplier\<close>

text \<open>
  C10. Two input records that differ only in \<open>valuePerTxMultiplier\<close> give the same
  result of \<open>computeFullModel\<close>, for the same \<open>includeBlockRewards\<close>: no computation
  reads the field.
\<close>

theorem valuePerTxMultiplier_not_read:
  "computeFullModel (i\<lparr>valuePerTxMultiplier := v\<rparr>) includeBlockRewards =
   computeFullModel i includeBlockRewards"
proof -
  let ?j = "i\<lparr>valuePerTxMultiplier := v\<rparr>"
  have same: "same_solver_fields ?j i" by (rule same_valuePerTxMultiplier)
  have fields:
    "btcPrice ?j = btcPrice i" "avgTxVb ?j = avgTxVb i" "backlogVb ?j = backlogVb i"
    "mevUplift ?j = mevUplift i" "costPerTHDay ?j = costPerTHDay i" "margin ?j = margin i"
    "poolShare ?j = poolShare i" "settlementUsdDay ?j = settlementUsdDay i"
    "rentRateUsdPerTHHour ?j = rentRateUsdPerTHHour i"
    by simp_all
  show ?thesis
    unfolding computeFullModel_def same_solveFeerateForTarget [OF same]
      same_confirmedVbPerDay [OF same] same_demandVbPerDay [OF same]
      same_securityBudgetTargetUsd [OF same]
      same_calculateConfirmationTime [OF same fields(3)] fields
    by (rule refl)
qed


section \<open>The best candidate of the binary search\<close>

lemma js_lt_irrefl [simp]: "\<not> js_lt a a"
  by (cases a) simp_all

lemma js_lt_trans: "js_lt a b \<Longrightarrow> js_lt b c \<Longrightarrow> js_lt a c"
  by (cases a; cases b; cases c) simp_all


lemma search_step_best:
  "(\<not> js_lt (relative_gap (feesUsdPerDay (midpoint s) i) t) (bestGap s) \<and>
      same_best s (search_step i t s)) \<or>
   (js_lt (relative_gap (feesUsdPerDay (midpoint s) i) t) (bestGap s) \<and>
      best_of i t (search_step i t s) (midpoint s))"
  by (simp add: search_step_def feesUsdPerDay_def usd_def Let_def same_best_def best_of_def)

lemma same_best_refl [simp]: "same_best s s"
  by (simp add: same_best_def)

lemma same_best_trans: "same_best s s1 \<Longrightarrow> same_best s1 s2 \<Longrightarrow> same_best s s2"
  by (simp add: same_best_def)

lemma search_loop_best:
  "(same_best s (search_loop n i t s) \<or>
      (\<exists>m\<in>set (candidates n i t s).
          best_of i t (search_loop n i t s) m \<and>
          js_lt (bestGap (search_loop n i t s)) (bestGap s))) \<and>
   (\<forall>m\<in>set (candidates n i t s).
      \<not> js_lt (relative_gap (feesUsdPerDay m i) t) (bestGap (search_loop n i t s)))"
proof (induction n arbitrary: s)
  case 0
  show ?case by simp
next
  case (Suc n)
  let ?s1 = "search_step i t s"
  let ?g = "relative_gap (feesUsdPerDay (midpoint s) i) t"
  have step: "(\<not> js_lt ?g (bestGap s) \<and> same_best s ?s1) \<or>
              (js_lt ?g (bestGap s) \<and> best_of i t ?s1 (midpoint s))"
    by (rule search_step_best)
  have mid1: "\<not> js_lt ?g (bestGap ?s1)"
    using step by (auto simp add: same_best_def best_of_def)
  have le1: "bestGap ?s1 = bestGap s \<or> js_lt (bestGap ?s1) (bestGap s)"
    using step by (auto simp add: same_best_def best_of_def)
  show ?case
  proof (cases "js_lt (js_sub (hi ?s1) (lo ?s1)) (Fin 0.001)")
    case True
    then have eq: "search_loop (Suc n) i t s = ?s1" "candidates (Suc n) i t s = [midpoint s]"
      by (simp_all add: Let_def)
    show ?thesis
      unfolding eq using step mid1 by (auto simp add: best_of_def)
  next
    case False
    let ?s2 = "search_loop n i t ?s1"
    from False have eq: "search_loop (Suc n) i t s = ?s2"
      "candidates (Suc n) i t s = midpoint s # candidates n i t ?s1"
      by (simp_all add: Let_def)
    note IH = Suc.IH [of ?s1]
    have le2: "bestGap ?s2 = bestGap ?s1 \<or> js_lt (bestGap ?s2) (bestGap ?s1)"
      using IH by (auto simp add: same_best_def)
    have a: "same_best s ?s2 \<or>
        (\<exists>m\<in>set (midpoint s # candidates n i t ?s1).
            best_of i t ?s2 m \<and> js_lt (bestGap ?s2) (bestGap s))"
    proof -
      from IH have "same_best ?s1 ?s2 \<or>
        (\<exists>m\<in>set (candidates n i t ?s1). best_of i t ?s2 m \<and> js_lt (bestGap ?s2) (bestGap ?s1))"
        by blast
      then show ?thesis
      proof
        assume sb: "same_best ?s1 ?s2"
        from step show ?thesis
        proof
          assume "\<not> js_lt ?g (bestGap s) \<and> same_best s ?s1"
          then show ?thesis using sb same_best_trans by blast
        next
          assume u: "js_lt ?g (bestGap s) \<and> best_of i t ?s1 (midpoint s)"
          then have "best_of i t ?s2 (midpoint s)"
            using sb by (simp add: best_of_def same_best_def)
          moreover have "js_lt (bestGap ?s2) (bestGap s)"
            using u sb by (simp add: best_of_def same_best_def)
          ultimately show ?thesis by simp
        qed
      next
        assume "\<exists>m\<in>set (candidates n i t ?s1).
                  best_of i t ?s2 m \<and> js_lt (bestGap ?s2) (bestGap ?s1)"
        then obtain m where m: "m \<in> set (candidates n i t ?s1)" "best_of i t ?s2 m"
          "js_lt (bestGap ?s2) (bestGap ?s1)" by blast
        have "js_lt (bestGap ?s2) (bestGap s)"
          using le1 m(3) js_lt_trans by metis
        with m show ?thesis by auto
      qed
    qed
    have b: "\<not> js_lt ?g (bestGap ?s2)"
      using mid1 le2 js_lt_trans by metis
    show ?thesis
      unfolding eq using a b IH by simp
  qed
qed

text \<open>The solver run on \<open>exact_target\<close>: it stops at 100 sat/vB and a little.\<close>

lemmas eval_defs = demandVbPerDay_def batchingFactor_or_default_def
  confirmedVbPerDay_def blockLimitVb_def Math_min_def Math_max_def js_sub_def js_ge_def js_gt_def
  relative_gap_def midpoint_def search_step_def usd_def inf_of_sign_def feesUsdPerDay_def

lemma exact_target_result:
  "solveFeerateForTarget exact_target =
     Inr \<lparr>feerate = Fin (13421784851 / 134217728), targetMet = True,
            gap = Fin (12051 / 13421772800),
            actualRevenue = Fin (58720308723125 / 2097152),
            confirmedDemandMBDay = Fin 280, targetFeesUsd = Fin 28000000\<rparr>"
  by (simp add: solveFeerateForTarget_def securityBudgetTargetUsd_def exact_target_def
        getDefaultInputs_def eval_defs Let_def initial_state_def eval_nat_numeral tolerance_def)

text \<open>
  C1. Whenever the budget resolver returns, \<open>solveFeerateForTarget\<close> returns a result
  whose \<open>targetFeesUsd\<close> is \<open>securityBudgetTargetUsd(inputs) / (1 + mevUplift)\<close>, whose
  \<open>targetMet\<close> holds exactly when the absolute value of \<open>gap\<close> is at most 0.0025, and
  whose \<open>gap\<close> is \<open>(bestFeesUsd - targetFeesUsd) / targetFeesUsd\<close>. Whether the target
  is met or not, the feerate returned is the best candidate found: either no evaluated
  midpoint had a relative gap below \<open>Infinity\<close> (then the feerate is the initial 100000
  and the best fees are 0), or the feerate is an evaluated midpoint, the best fees are
  its fee revenue, and no evaluated midpoint has a smaller relative gap.
\<close>

theorem solver_target_and_verdict:
  assumes "securityBudgetTargetUsd i = Inr sb"
  shows "\<exists>r bestFees.
     solveFeerateForTarget i = Inr r \<and>
     targetFeesUsd r = js_div (toNumber sb) (js_add (Fin 1) (Fin (mevUplift i))) \<and>
     (targetMet r \<longleftrightarrow> js_le (Math_abs (gap r)) (Fin 0.0025)) \<and>
     gap r = js_div (js_sub bestFees (targetFeesUsd r)) (targetFeesUsd r) \<and>
     actualRevenue r = js_mul bestFees (js_add (Fin 1) (Fin (mevUplift i))) \<and>
     ((feerate r = Fin 100000 \<and> bestFees = Fin 0 \<and>
       (\<forall>m\<in>set (candidates 100 i (targetFeesUsd r) initial_state).
          \<not> js_lt (relative_gap (feesUsdPerDay m i) (targetFeesUsd r)) PInf)) \<or>
      (feerate r \<in> set (candidates 100 i (targetFeesUsd r) initial_state) \<and>
       bestFees = feesUsdPerDay (feerate r) i \<and>
       (\<forall>m\<in>set (candidates 100 i (targetFeesUsd r) initial_state).
          \<not> js_lt (relative_gap (feesUsdPerDay m i) (targetFeesUsd r))
                     (relative_gap (feesUsdPerDay (feerate r) i) (targetFeesUsd r)))))"
proof -
  let ?T = "js_div (toNumber sb) (js_add (Fin 1) (Fin (mevUplift i)))"
  let ?s = "search_loop 100 i ?T initial_state"
  let ?g = "js_div (js_sub (bestFeesUsd ?s) ?T) ?T"
  let ?r = "\<lparr>feerate = bestFeerate ?s, targetMet = js_le (Math_abs ?g) tolerance, gap = ?g,
             actualRevenue = js_mul (bestFeesUsd ?s) (js_add (Fin 1) (Fin (mevUplift i))),
             confirmedDemandMBDay = bestDemand ?s, targetFeesUsd = ?T\<rparr>"
  have r: "solveFeerateForTarget i = Inr ?r"
    using assms by (simp add: solveFeerateForTarget_def Let_def)
  note best = search_loop_best [of initial_state 100 i ?T]
  have all: "\<forall>m\<in>set (candidates 100 i ?T initial_state).
               \<not> js_lt (relative_gap (feesUsdPerDay m i) ?T) (bestGap ?s)"
    using best by blast
  have "same_best initial_state ?s \<or>
        (\<exists>m\<in>set (candidates 100 i ?T initial_state). best_of i ?T ?s m)"
    using best by blast
  then have "(bestFeerate ?s = Fin 100000 \<and> bestFeesUsd ?s = Fin 0 \<and>
       (\<forall>m\<in>set (candidates 100 i ?T initial_state).
          \<not> js_lt (relative_gap (feesUsdPerDay m i) ?T) PInf)) \<or>
      (bestFeerate ?s \<in> set (candidates 100 i ?T initial_state) \<and>
       bestFeesUsd ?s = feesUsdPerDay (bestFeerate ?s) i \<and>
       (\<forall>m\<in>set (candidates 100 i ?T initial_state).
          \<not> js_lt (relative_gap (feesUsdPerDay m i) ?T)
                     (relative_gap (feesUsdPerDay (bestFeerate ?s) i) ?T)))"
  proof
    assume "same_best initial_state ?s"
    then have "bestFeerate ?s = Fin 100000" "bestFeesUsd ?s = Fin 0" "bestGap ?s = PInf"
      by (simp_all add: same_best_def initial_state_def)
    with all show ?thesis by simp
  next
    assume "\<exists>m\<in>set (candidates 100 i ?T initial_state). best_of i ?T ?s m"
    then obtain m where m: "m \<in> set (candidates 100 i ?T initial_state)" "best_of i ?T ?s m"
      by blast
    then have "bestFeerate ?s = m" "bestFeesUsd ?s = feesUsdPerDay m i"
      "bestGap ?s = relative_gap (feesUsdPerDay m i) ?T"
      by (simp_all add: best_of_def)
    with all m(1) show ?thesis by simp
  qed
  then show ?thesis
    unfolding r by (intro exI [of _ ?r] exI [of _ "bestFeesUsd ?s"]) (simp add: tolerance_def)
qed

theorem solver_target_and_verdict_witness:
  "securityBudgetTargetUsd exact_target = Inr (Num (Fin 28000000)) \<and>
   (\<exists>r. solveFeerateForTarget exact_target = Inr r \<and>
        targetFeesUsd r = Fin 28000000 \<and>
        (targetMet r \<longleftrightarrow> js_le (Math_abs (gap r)) (Fin 0.0025)))"
proof -
  have h: "securityBudgetTargetUsd exact_target = Inr (Num (Fin 28000000))"
    by (simp add: securityBudgetTargetUsd_def exact_target_def getDefaultInputs_def)
  have t: "js_div (toNumber (Num (Fin 28000000))) (js_add (Fin 1) (Fin (mevUplift exact_target)))
             = Fin 28000000"
    by (simp add: exact_target_def getDefaultInputs_def)
  from solver_target_and_verdict [OF h] show ?thesis
    unfolding t using h by blast
qed

section \<open>A zero budget\<close>

lemma relative_gap_zero_target: "\<not> js_lt (relative_gap x (Fin 0)) PInf"
  by (cases x) (simp_all add: relative_gap_def js_sub_def inf_of_sign_def)

lemma search_loop_zero_target:
  "bestGap s = PInf \<Longrightarrow> same_best s (search_loop n i (Fin 0) s)"
proof (induction n arbitrary: s)
  case 0
  show ?case by simp
next
  case (Suc n)
  have step: "same_best s (search_step i (Fin 0) s)"
    using search_step_best [of s i "Fin 0"] relative_gap_zero_target Suc.prems by auto
  then have "bestGap (search_step i (Fin 0) s) = PInf"
    using Suc.prems by (simp add: same_best_def)
  from Suc.IH [OF this] step show ?case
    by (auto simp add: Let_def intro: same_best_trans)
qed

text \<open>
  With a negative target the relative gap of the first midpoint is negative and every
  later one is larger, so the solver returns the first midpoint, 50000.5 sat/vB.
\<close>

lemma negative_budget_returns_first_midpoint:
  "solveFeerateForTarget negative_budget =
     Inr \<lparr>feerate = Fin (100001 / 2), targetMet = False,
            gap = Fin (- (100201 / 200)), actualRevenue = Fin 14000140000,
            confirmedDemandMBDay = Fin 280, targetFeesUsd = Fin (- 28000000)\<rparr>"
  by (simp add: solveFeerateForTarget_def securityBudgetTargetUsd_def negative_budget_def
        exact_target_def getDefaultInputs_def eval_defs Let_def initial_state_def
        eval_nat_numeral tolerance_def)

text \<open>
  C5 says that a target of zero or less resolves to a feerate near the search floor of
  1 sat/vB. With the default inputs and an absolute budget of 0 the bracket does shrink
  to the floor, but the relative gap \<open>|feesUsd - 0| / 0\<close> is never below \<open>Infinity\<close>, so
  no midpoint ever replaces the initial best candidate: the solver returns the ceiling,
  100000 sat/vB, with \<open>gap = NaN\<close>.
\<close>

theorem zero_budget_returns_ceiling:
  "solveFeerateForTarget zero_budget =
     Inr \<lparr>feerate = Fin 100000, targetMet = False, gap = NaN, actualRevenue = Fin 0,
            confirmedDemandMBDay = Fin 0, targetFeesUsd = Fin 0\<rparr>"
proof -
  have b: "securityBudgetTargetUsd zero_budget = Inr (Num (Fin 0))"
    by (simp add: securityBudgetTargetUsd_def zero_budget_def getDefaultInputs_def)
  have m: "mevUplift zero_budget = 3 / 100"
    by (simp add: zero_budget_def getDefaultInputs_def)
  have "same_best initial_state (search_loop 100 zero_budget (Fin 0) initial_state)"
    by (rule search_loop_zero_target) (simp add: initial_state_def)
  then have best: "bestFeerate (search_loop 100 zero_budget (Fin 0) initial_state) = Fin 100000"
    "bestFeesUsd (search_loop 100 zero_budget (Fin 0) initial_state) = Fin 0"
    "bestDemand (search_loop 100 zero_budget (Fin 0) initial_state) = Fin 0"
    by (simp_all add: same_best_def initial_state_def)
  show ?thesis
    by (simp add: solveFeerateForTarget_def b m Let_def best js_sub_def inf_of_sign_def
          tolerance_def)
qed

section \<open>Fee revenue as a function of the feerate\<close>

lemma batching_divisor_pos: "batching_at_least_one i \<Longrightarrow> 1 \<le> batching_divisor i"
  by (auto simp add: batching_at_least_one_def batching_divisor_def)

lemma batchingFactor_or_default_real:
  "batching_at_least_one i \<Longrightarrow> batchingFactor_or_default i = Fin (batching_divisor i)"
  by (auto simp add: batching_at_least_one_def batching_divisor_def batchingFactor_or_default_def)

lemma Math_pow_positive_base:
  "0 < x \<Longrightarrow> Math_pow (Fin x) e = Fin (x powr e)"
  by simp

lemma demand_closed_form:
  assumes "0 < baselineFeerate i" "batching_at_least_one i" "0 < f"
  shows "demandVbPerDay (Fin f) i =
           Fin (baselineDemandVbDay i / batching_divisor i * (f / baselineFeerate i) powr elasticity i)"
proof -
  have r: "0 < f / baselineFeerate i" using assms by simp
  have b: "batching_divisor i \<noteq> 0" using batching_divisor_pos [OF assms(2)] by simp
  show ?thesis
    using assms(1) b
    by (simp add: demandVbPerDay_def batchingFactor_or_default_real [OF assms(2)]
          Math_pow_positive_base [OF r] del: Math_pow.simps)
qed

lemma fees_closed_form:
  assumes "0 < baselineFeerate i" "batching_at_least_one i" "0 < f"
  shows "feesUsdPerDay (Fin f) i = Fin (fees_real f i)"
  by (simp add: feesUsdPerDay_def confirmedVbPerDay_def blockLimitVb_def
        demand_closed_form [OF assms] Math_min_def usd_def fees_real_def min_def)









section \<open>Block rewards\<close>






lemma recognised_mode_returns:
  "recognised_mode (securityBudgetMode i) \<Longrightarrow> \<exists>sb. securityBudgetTargetUsd i = Inr sb"
  by (auto simp add: recognised_mode_def securityBudgetTargetUsd_def)











section \<open>A target out of reach\<close>










lemma flat_demand_fees:
  assumes "0 < f"
  shows "feesUsdPerDay (Fin f) (exact_target\<lparr>absoluteUsdDay := v\<rparr>) = Fin (280000 * f)"
proof -
  let ?i = "exact_target\<lparr>absoluteUsdDay := v\<rparr>"
  have h: "0 < baselineFeerate ?i" "batching_at_least_one ?i"
    by (simp_all add: exact_target_def getDefaultInputs_def batching_at_least_one_def)
  show ?thesis
    unfolding fees_closed_form [OF h assms]
    using assms
    by (simp add: fees_real_def exact_target_def getDefaultInputs_def batching_divisor_def)
qed

lemma near_ceiling_target_unreachable:
  "1 \<le> f \<Longrightarrow> f \<le> 100000 \<Longrightarrow>
   js_lt (feesUsdPerDay (Fin f) near_ceiling_target) (Fin 28028000000)"
  unfolding near_ceiling_target_def by (simp add: flat_demand_fees)




end
